theory Spec2Isabelle
  imports Complex_Main
begin

section \<open>The dashboard client of the ACL Rehab Tracker\<close>

text \<open>
  A shallow embedding of \<^verbatim>\<open>frontend/src/App.jsx\<close> and of
  \<^verbatim>\<open>frontend/src/components/MuscleActivationBar.jsx\<close>. Every React state
  variable of \<^verbatim>\<open>App\<close> is a field of the record \<open>app_state\<close>; every handler is
  a function from the state before to the state after. What a handler learns from the
  network (the outcome of a \<^verbatim>\<open>fetch\<close>, the parsed message of the socket) and the
  clock are parameters. A handler runs to its end on the state it was started in:
  messages that arrive between a request and its answer are not interleaved with it.
  JavaScript numbers are modelled as reals: rounding is not part of the model.
\<close>

subsection \<open>Data\<close>

text \<open>An object with the keys \<^verbatim>\<open>thigh\<close> and \<^verbatim>\<open>shin\<close>.\<close>

record 'a segments =
  thigh :: 'a
  shin :: 'a

text \<open>An object with the keys \<^verbatim>\<open>pitch\<close> and \<^verbatim>\<open>roll\<close>.\<close>

record 'a tilt =
  pitch :: 'a
  roll :: 'a

text \<open>The names of \<^verbatim>\<open>const segments = ['thigh', 'shin']\<close>, and \<^verbatim>\<open>obj[segment]\<close>.\<close>

datatype segment = Thigh | Shin

fun at_segment :: "'a segments \<Rightarrow> segment \<Rightarrow> 'a" where
  "at_segment obj Thigh = thigh obj"
| "at_segment obj Shin = shin obj"

text \<open>
  The filtered estimate of one segment holds two numbers. An incoming reading is a JSON
  object whose \<^verbatim>\<open>pitch\<close> and \<^verbatim>\<open>roll\<close> may be null or missing (\<open>None\<close>); the
  payload may lack a segment, or hold null for it (\<open>None\<close>).
\<close>

type_synonym orientation = "real tilt"
type_synonym reading = "real option tilt"
type_synonym imu_payload = "reading option segments"

text \<open>
  One parsed message of the stream, with the fields \<^verbatim>\<open>App.jsx\<close> reads. A field that
  is missing or null is \<open>None\<close>. For \<^verbatim>\<open>muscle_rest_voltage\<close> the code tests the
  presence of the key with \<^verbatim>\<open>hasOwnProperty\<close>: the outer \<open>None\<close> is a missing key,
  \<open>Some None\<close> is a key holding null.
\<close>

record metrics =
  flexion_angle :: "real option"
  extension_angle :: "real option"
  muscle_voltage :: "real option"
  muscle_relative :: "real option"
  torque :: "real option"
  max_flexion :: "real option"
  max_extension :: "real option"
  max_torque :: "real option"
  imu :: "imu_payload option"
  raw_imu :: "imu_payload option"
  muscle_rest_voltage :: "real option option"
  muscle_peak_voltage :: "real option"

record muscle_range =
  rest :: "real option"
  peak :: "real option"

text \<open>The values of \<^verbatim>\<open>calibrationStep\<close>: "ready", "rest", "peak", "done".\<close>

datatype calibration_step = Ready | Rest | Peak | Done

datatype modal_type = Unified

record modal_state =
  modal_type :: "modal_type option"
  modal_open :: bool

text \<open>
  What a pending \<^verbatim>\<open>setTimeout\<close> will run: \<^verbatim>\<open>connectWebSocket\<close>, or the arrow
  function \<^verbatim>\<open>() => setToastMessage(null)\<close>.
\<close>

datatype callback = ConnectWebSocket | ClearToast

record timer =
  timer_id :: nat
  due :: nat
  action :: callback

text \<open>
  The state of the component: its ten \<^verbatim>\<open>useState\<close> variables and two refs, and the
  part of the browser it writes to: the pending timers (with the id the next
  \<^verbatim>\<open>setTimeout\<close> returns; ids start at 1, so that an id is truthy) and the number
  of sockets opened so far. \<^verbatim>\<open>wsRef.current\<close> holds the index of the socket
  opened last.
\<close>

record app_state =
  data :: "metrics option"
  isConnected :: bool
  difficulty :: nat
  history :: "metrics list"
  smoothImu :: "orientation segments"
  isCalibrating :: bool
  toastMessage :: "string option"
  muscleRange :: muscle_range
  calibrationStep :: calibration_step
  modalState :: modal_state
  wsRef :: "nat option"
  toastTimeoutRef :: "nat option"
  timers :: "timer list"
  nextTimerId :: nat
  socketsOpened :: nat

definition maxHistoryLength :: nat where
  "maxHistoryLength = 100"

definition smoothingAlpha :: real where
  "smoothingAlpha = 0.8"

definition createNeutralImu :: "orientation segments" where
  "createNeutralImu =
     \<lparr>thigh = \<lparr>pitch = 0, roll = 0\<rparr>, shin = \<lparr>pitch = 0, roll = 0\<rparr>\<rparr>"

text \<open>The state of the first render, before the effect has run.\<close>

definition initial_state :: app_state where
  "initial_state =
     \<lparr>data = None, isConnected = False, difficulty = 1, history = [],
      smoothImu = createNeutralImu, isCalibrating = False, toastMessage = None,
      muscleRange = \<lparr>rest = None, peak = None\<rparr>, calibrationStep = Ready,
      modalState = \<lparr>modal_type = None, modal_open = False\<rparr>,
      wsRef = None, toastTimeoutRef = None, timers = [], nextTimerId = 1,
      socketsOpened = 0\<rparr>"

subsection \<open>JavaScript operators\<close>

text \<open>\<^verbatim>\<open>a ?? b\<close>: the left operand unless it is null or undefined.\<close>

fun nullish :: "'a option \<Rightarrow> 'a \<Rightarrow> 'a" where
  "nullish (Some a) b = a"
| "nullish None b = b"

text \<open>
  \<^verbatim>\<open>a || b\<close> on an optional number: the left operand unless it is falsy, that is
  null, undefined or 0.
\<close>

fun falsy_or :: "real option \<Rightarrow> real \<Rightarrow> real" where
  "falsy_or None b = b"
| "falsy_or (Some a) b = (if a = 0 then b else a)"

text \<open>
  \<^verbatim>\<open>xs.slice(-n)\<close> for \<open>n > 0\<close>: the start index is \<open>max (length - n) 0\<close>, which
  is what the subtraction of natural numbers computes.
\<close>

definition slice_last :: "nat \<Rightarrow> 'a list \<Rightarrow> 'a list" where
  "slice_last n xs = drop (length xs - n) xs"

text \<open>
  \<^verbatim>\<open>Math.max(...xs)\<close> starts from \<^verbatim>\<open>-Infinity\<close> and takes the larger of the
  running result and each argument in turn.
\<close>

datatype jsnum = NegInfinity | Num real

fun larger :: "jsnum \<Rightarrow> real \<Rightarrow> jsnum" where
  "larger NegInfinity x = Num x"
| "larger (Num a) x = Num (max a x)"

definition math_max :: "real list \<Rightarrow> jsnum" where
  "math_max xs = foldl larger NegInfinity xs"

subsection \<open>The message handler\<close>

text \<open>
  The body of \<^verbatim>\<open>segments.forEach\<close> for one segment: without an incoming reading
  the previous estimate is kept; with one, a missing angle is replaced by the previous
  one and both angles are blended.
\<close>

definition smoothSegment :: "orientation \<Rightarrow> reading option \<Rightarrow> orientation" where
  "smoothSegment prevSegment incoming =
     (case incoming of
        None \<Rightarrow> prevSegment
      | Some inc \<Rightarrow>
          (let newPitch = nullish (pitch inc) (pitch prevSegment);
               newRoll = nullish (roll inc) (roll prevSegment)
           in \<lparr>pitch = smoothingAlpha * pitch prevSegment + (1 - smoothingAlpha) * newPitch,
               roll = smoothingAlpha * roll prevSegment + (1 - smoothingAlpha) * newRoll\<rparr>))"

text \<open>
  The updater passed to \<^verbatim>\<open>setSmoothImu\<close>. The state always holds both segments
  (every updater and \<^verbatim>\<open>createNeutralImu\<close> write both), so the fallbacks
  \<^verbatim>\<open>prev || createNeutralImu()\<close> and \<^verbatim>\<open>previous[segment] || {pitch: 0, roll: 0}\<close>
  are never taken and the type leaves them out.
\<close>

definition smoothUpdate :: "imu_payload \<Rightarrow> orientation segments \<Rightarrow> orientation segments" where
  "smoothUpdate imuPayload previous =
     \<lparr>thigh = smoothSegment (thigh previous) (thigh imuPayload),
      shin = smoothSegment (shin previous) (shin imuPayload)\<rparr>"

text \<open>\<^verbatim>\<open>newData?.imu || newData?.raw_imu || {}\<close>\<close>

definition imuPayload_of :: "metrics \<Rightarrow> imu_payload" where
  "imuPayload_of newData =
     (case imu newData of
        Some p \<Rightarrow> p
      | None \<Rightarrow>
          (case raw_imu newData of
             Some p \<Rightarrow> p
           | None \<Rightarrow> \<lparr>thigh = None, shin = None\<rparr>))"

text \<open>The updater passed to \<^verbatim>\<open>setHistory\<close>.\<close>

definition pushHistory :: "metrics \<Rightarrow> metrics list \<Rightarrow> metrics list" where
  "pushHistory newData prev = (let updated = prev @ [newData] in slice_last maxHistoryLength updated)"

text \<open>\<^verbatim>\<open>ws.onmessage\<close>, for a message that parses to an object.\<close>

definition ws_onmessage :: "metrics \<Rightarrow> app_state \<Rightarrow> app_state" where
  "ws_onmessage newData s =
     (let s1 = s\<lparr>data := Some newData\<rparr>;
          s2 = (case muscle_rest_voltage newData of
                  None \<Rightarrow> s1
                | Some r \<Rightarrow> s1\<lparr>muscleRange := \<lparr>rest = r, peak = muscle_peak_voltage newData\<rparr>\<rparr>);
          s3 = s2\<lparr>smoothImu := smoothUpdate (imuPayload_of newData) (smoothImu s2)\<rparr>
      in s3\<lparr>history := pushHistory newData (history s3)\<rparr>)"

text \<open>
  The handler as the socket calls it, on the text of \<^verbatim>\<open>event.data\<close>. The backend
  sends one JSON object per tick. \<^verbatim>\<open>JSON.parse\<close> throws on a text that is not JSON,
  before any setter has run; on the text \<^verbatim>\<open>null\<close> the call of \<^verbatim>\<open>setData\<close> runs
  and \<^verbatim>\<open>hasOwnProperty.call(null, ...)\<close> then throws. The result is the exception,
  if any, and the state afterwards.
\<close>

datatype event_data = NotJson | JsonNull | JsonObject metrics

datatype exception = SyntaxError | TypeError

definition ws_onmessage_event :: "event_data \<Rightarrow> app_state \<Rightarrow> exception option \<times> app_state" where
  "ws_onmessage_event d s =
     (case d of
        NotJson \<Rightarrow> (Some SyntaxError, s)
      | JsonNull \<Rightarrow> (Some TypeError, s\<lparr>data := None\<rparr>)
      | JsonObject newData \<Rightarrow> (None, ws_onmessage newData s))"

text \<open>The messages of a stream, handled in their order of arrival.\<close>

definition receive_all :: "metrics list \<Rightarrow> app_state \<Rightarrow> app_state" where
  "receive_all msgs s = foldl (\<lambda>st m. ws_onmessage m st) s msgs"

text \<open>The memoised \<^verbatim>\<open>relativePeak\<close>.\<close>

definition relativePeak :: "metrics list \<Rightarrow> jsnum" where
  "relativePeak hist =
     (if length hist = 0 then Num 0
      else math_max (map (\<lambda>entry. nullish (muscle_relative entry) 0) hist))"

subsection \<open>Timers and the socket\<close>

text \<open>
  \<^verbatim>\<open>setTimeout(cb, delay)\<close> called when the clock shows \<open>now\<close> (milliseconds):
  the timer is queued and its id returned. \<^verbatim>\<open>clearTimeout(id)\<close> removes it.
\<close>

definition setTimeout :: "callback \<Rightarrow> nat \<Rightarrow> nat \<Rightarrow> app_state \<Rightarrow> nat \<times> app_state" where
  "setTimeout cb delay now s =
     (nextTimerId s,
      s\<lparr>timers := timers s @ [\<lparr>timer_id = nextTimerId s, due = now + delay, action = cb\<rparr>],
        nextTimerId := Suc (nextTimerId s)\<rparr>)"

definition clearTimeout :: "nat \<Rightarrow> app_state \<Rightarrow> app_state" where
  "clearTimeout tid s = s\<lparr>timers := filter (\<lambda>t. timer_id t \<noteq> tid) (timers s)\<rparr>"

text \<open>
  \<^verbatim>\<open>connectWebSocket\<close>: a new socket is created and stored in \<^verbatim>\<open>wsRef.current\<close>;
  the four handlers below are attached to it.
\<close>

definition connectWebSocket :: "app_state \<Rightarrow> app_state" where
  "connectWebSocket s = s\<lparr>wsRef := Some (socketsOpened s), socketsOpened := Suc (socketsOpened s)\<rparr>"

definition ws_onopen :: "app_state \<Rightarrow> app_state" where
  "ws_onopen s = s\<lparr>isConnected := True\<rparr>"

definition ws_onerror :: "app_state \<Rightarrow> app_state" where
  "ws_onerror s = s\<lparr>isConnected := False\<rparr>"

definition ws_onclose :: "nat \<Rightarrow> app_state \<Rightarrow> app_state" where
  "ws_onclose now s = snd (setTimeout ConnectWebSocket 3000 now (s\<lparr>isConnected := False\<rparr>))"

text \<open>What the browser does with the queue: a timer that is due is removed and run.\<close>

fun run_callback :: "callback \<Rightarrow> app_state \<Rightarrow> app_state" where
  "run_callback ConnectWebSocket s = connectWebSocket s"
| "run_callback ClearToast s = s\<lparr>toastMessage := None\<rparr>"

definition fire_due :: "nat \<Rightarrow> app_state \<Rightarrow> app_state" where
  "fire_due now s =
     foldl (\<lambda>st t. run_callback (action t) st)
       (s\<lparr>timers := filter (\<lambda>t. now < due t) (timers s)\<rparr>)
       (filter (\<lambda>t. due t \<le> now) (timers s))"

text \<open>The socket closes at time \<open>now\<close>, and the clock then reaches \<open>now + 3000\<close>.\<close>

definition close_and_wait :: "nat \<Rightarrow> app_state \<Rightarrow> app_state" where
  "close_and_wait now s = fire_due (now + 3000) (ws_onclose now s)"

subsection \<open>Requests\<close>

text \<open>
  The body the backend returns for \<^verbatim>\<open>/muscle/calibrate\<close>, read by the client as
  \<^verbatim>\<open>result.rest_voltage\<close> and \<^verbatim>\<open>result.peak_voltage\<close>; section 3 of the
  specification calls the same pair MuscleCalibration.
\<close>

record muscle_calibration =
  rest_voltage :: "real option"
  peak_voltage :: "real option"

text \<open>
  A \<^verbatim>\<open>fetch\<close> either rejects (the network failed) or resolves with a response, of
  which the client reads \<^verbatim>\<open>ok\<close>, \<^verbatim>\<open>status\<close> and \<^verbatim>\<open>json()\<close>; the latter
  rejects when the body is not JSON (\<open>None\<close>).
\<close>

record http_response =
  response_ok :: bool
  response_status :: nat
  response_json :: "muscle_calibration option"

datatype fetch_outcome = Rejected | Resolved http_response

datatype js_error = FetchFailed | HttpError nat | BodyNotJson

text \<open>The \<^verbatim>\<open>mode\<close> of \<^verbatim>\<open>/muscle/calibrate?mode=\<close>: "rest" or "max".\<close>

datatype mode = ModeRest | ModeMax

text \<open>
  \<^verbatim>\<open>resetSession\<close>: the three setters run once the \<^verbatim>\<open>fetch\<close> has resolved,
  whatever the status of the response; a rejection is caught and logged.
\<close>

definition resetSession :: "fetch_outcome \<Rightarrow> app_state \<Rightarrow> app_state" where
  "resetSession reply s =
     (case reply of
        Rejected \<Rightarrow> s
      | Resolved r \<Rightarrow>
          s\<lparr>history := [], muscleRange := \<lparr>rest = None, peak = None\<rparr>, calibrationStep := Ready\<rparr>)"

definition calibrateImu :: "fetch_outcome \<Rightarrow> app_state \<Rightarrow> js_error + app_state" where
  "calibrateImu reply s =
     (case reply of
        Rejected \<Rightarrow> Inl FetchFailed
      | Resolved r \<Rightarrow> Inr (s\<lparr>smoothImu := createNeutralImu\<rparr>))"

text \<open>
  \<^verbatim>\<open>calibrateMuscleStep\<close>. The mode only selects the URL; what the backend answers
  to it is the parameter \<open>reply\<close>.
\<close>

definition calibrateMuscleStep :: "mode \<Rightarrow> fetch_outcome \<Rightarrow> app_state \<Rightarrow> js_error + app_state" where
  "calibrateMuscleStep m reply s =
     (case reply of
        Rejected \<Rightarrow> Inl FetchFailed
      | Resolved response \<Rightarrow>
          if \<not> response_ok response then Inl (HttpError (response_status response))
          else
            (case response_json response of
               None \<Rightarrow> Inl BodyNotJson
             | Some result \<Rightarrow>
                 Inr (s\<lparr>muscleRange :=
                   \<lparr>rest = (case rest_voltage result of Some v \<Rightarrow> Some v | None \<Rightarrow> rest (muscleRange s)),
                    peak = (case peak_voltage result of Some v \<Rightarrow> Some v | None \<Rightarrow> peak (muscleRange s))\<rparr>\<rparr>)))"

subsection \<open>The calibration dialogue\<close>

definition openModal :: "modal_type \<Rightarrow> app_state \<Rightarrow> app_state" where
  "openModal ty s = s\<lparr>modalState := \<lparr>modal_type = Some ty, modal_open = True\<rparr>\<rparr>"

definition closeModal :: "app_state \<Rightarrow> app_state" where
  "closeModal s = s\<lparr>modalState := \<lparr>modal_type = None, modal_open = False\<rparr>\<rparr>"

text \<open>The handler of the button labelled "Initialize Sensors" or "Recalibrate".\<close>

definition openUnifiedModal :: "app_state \<Rightarrow> app_state" where
  "openUnifiedModal s =
     s\<lparr>modalState := \<lparr>modal_type = Some Unified, modal_open = True\<rparr>, calibrationStep := Rest\<rparr>"

definition buttonLabel :: "app_state \<Rightarrow> string" where
  "buttonLabel s = (if calibrationStep s = Done then ''Recalibrate'' else ''Initialize Sensors'')"

text \<open>
  The part of \<^verbatim>\<open>handleModalConfirm\<close> that follows a successful
  \<^verbatim>\<open>calibrateMuscleStep("max")\<close>. A timer id is truthy when it is not 0. The
  arrow in the message of the toast is written \<open>->\<close> here.
\<close>

definition announceComplete :: "nat \<Rightarrow> app_state \<Rightarrow> app_state" where
  "announceComplete now s =
     (let s1 = (case toastTimeoutRef s of
                  None \<Rightarrow> s
                | Some t \<Rightarrow> if t = 0 then s else clearTimeout t s);
          s2 = s1\<lparr>toastMessage :=
                 Some ''Calibration complete. Relative meter now spans your relaxed -> max contraction.''\<rparr>;
          s3 = (case setTimeout ClearToast 3000 now s2 of (tid, st) \<Rightarrow> st\<lparr>toastTimeoutRef := Some tid\<rparr>)
      in closeModal (s3\<lparr>calibrationStep := Done\<rparr>))"

text \<open>
  \<^verbatim>\<open>handleModalConfirm\<close>, with the answers of the backend to the two requests it
  may send. An exception leaves the \<^verbatim>\<open>try\<close> block at the \<^verbatim>\<open>await\<close> that
  threw, with the setters that ran before it applied; the \<^verbatim>\<open>finally\<close> block runs on
  every path.
\<close>

definition handleModalConfirm :: "fetch_outcome \<Rightarrow> fetch_outcome \<Rightarrow> nat \<Rightarrow> app_state \<Rightarrow> app_state" where
  "handleModalConfirm muscleReply imuReply now s =
     (let s0 = s\<lparr>isCalibrating := True\<rparr>;
          s' =
            (if calibrationStep s = Rest then
               (case calibrateMuscleStep ModeRest muscleReply s0 of
                  Inl e \<Rightarrow> s0
                | Inr s1 \<Rightarrow>
                    (case calibrateImu imuReply s1 of
                       Inl e \<Rightarrow> s1
                     | Inr s2 \<Rightarrow> s2\<lparr>calibrationStep := Peak\<rparr>))
             else if calibrationStep s = Peak then
               (case calibrateMuscleStep ModeMax muscleReply s0 of
                  Inl e \<Rightarrow> s0
                | Inr s1 \<Rightarrow> announceComplete now s1)
             else s0)
      in s'\<lparr>isCalibrating := False\<rparr>)"

subsection \<open>The displayed maxima\<close>

text \<open>
  The running maxima the client shows are read from the snapshot received last:
  \<^verbatim>\<open>maxFlexion={data?.max_flexion || 0}\<close> and
  \<^verbatim>\<open>maxExtension={data?.max_extension || 180}\<close> are handed to the knee panel, and
  the torque card prints \<^verbatim>\<open>data?.max_torque?.toFixed(2) || 0\<close>, of which
  \<open>maxTorque\<close> is the number printed. The client keeps no maxima of its own besides
  \<^verbatim>\<open>relativePeak\<close>.
\<close>

definition maxFlexion :: "metrics option \<Rightarrow> real" where
  "maxFlexion d = (case d of None \<Rightarrow> 0 | Some m \<Rightarrow> falsy_or (max_flexion m) 0)"

definition maxExtension :: "metrics option \<Rightarrow> real" where
  "maxExtension d = (case d of None \<Rightarrow> 180 | Some m \<Rightarrow> falsy_or (max_extension m) 180)"

definition maxTorque :: "metrics option \<Rightarrow> real" where
  "maxTorque d = (case d of None \<Rightarrow> 0 | Some m \<Rightarrow> nullish (max_torque m) 0)"

subsection \<open>The activation bar\<close>

text \<open>\<^verbatim>\<open>data?.muscle_relative ?? 0\<close>, the value handed to the bar.\<close>

definition currentRelative :: "metrics option \<Rightarrow> real" where
  "currentRelative d = (case d of None \<Rightarrow> 0 | Some m \<Rightarrow> nullish (muscle_relative m) 0)"

text \<open>
  The state of \<^verbatim>\<open>MuscleActivationBar\<close>, and the callback of the 50 ms timer its
  effect starts whenever \<^verbatim>\<open>value\<close> or \<^verbatim>\<open>threshold\<close> changes.
\<close>

record bar_state =
  displayValue :: real
  isActive :: bool

definition initial_bar :: bar_state where
  "initial_bar = \<lparr>displayValue = 0, isActive = False\<rparr>"

definition bar_timer :: "real \<Rightarrow> real \<Rightarrow> bar_state \<Rightarrow> bar_state" where
  "bar_timer v threshold b = b\<lparr>displayValue := v, isActive := (threshold \<le> v)\<rparr>"

text \<open>\<^verbatim>\<open>Math.min(100, Math.max(0, displayValue))\<close>\<close>

definition barHeight :: "bar_state \<Rightarrow> real" where
  "barHeight b = min 100 (max 0 (displayValue b))"

subsection \<open>The Muscle Activation Monitor of the backend\<close>

text \<open>
  Modelled from the spec: \<^verbatim>\<open>relative_activation\<close> of the Muscle Activation Monitor.
  The backend (\<^verbatim>\<open>backend/sensors/myoware.py\<close>, \<^verbatim>\<open>backend/main.py\<close>) is not among
  the sources. Section 4.2: percent = 100 (voltage - rest_voltage) / (peak_voltage -
  rest_voltage), clamped to [0, 100]; 0 when calibration is incomplete. The specification
  does not say what the quotient is when the two voltages are equal; the division of
  the reals by 0 stands there.
\<close>

definition relative_activation :: "muscle_calibration \<Rightarrow> real \<Rightarrow> real" where
  "relative_activation cal voltage =
     (case rest_voltage cal of
        None \<Rightarrow> 0
      | Some r \<Rightarrow>
          (case peak_voltage cal of
             None \<Rightarrow> 0
           | Some p \<Rightarrow> min 100 (max 0 (100 * (voltage - r) / (p - r)))))"

datatype calibration_error = CalibrationOrderError

text \<open>
  Modelled from the spec: \<^verbatim>\<open>calibrate-muscle(mode)\<close> of the control surface, which is
  served by the backend and is not among the sources. Sections 4.2, 6 and 7: a capture
  stores the voltage sampled at the call; mode max fails with CalibrationOrderError if
  rest has not been captured, and an error leaves the stored state unchanged; otherwise
  the call returns the pair of voltages. The result is the answer and the record stored
  afterwards.
\<close>

definition calibrate_muscle ::
  "mode \<Rightarrow> real \<Rightarrow> muscle_calibration \<Rightarrow> (calibration_error + muscle_calibration) \<times> muscle_calibration" where
  "calibrate_muscle m voltage cal =
     (case m of
        ModeRest \<Rightarrow> (let cal' = cal\<lparr>rest_voltage := Some voltage\<rparr> in (Inr cal', cal'))
      | ModeMax \<Rightarrow>
          (case rest_voltage cal of
             None \<Rightarrow> (Inl CalibrationOrderError, cal)
           | Some r \<Rightarrow> (let cal' = cal\<lparr>peak_voltage := Some voltage\<rparr> in (Inr cal', cal'))))"

subsection \<open>Sample inputs\<close>

text \<open>Concrete messages, answers and states, at which the theorems below are instantiated.\<close>

definition blank_metrics :: metrics where
  "blank_metrics =
     \<lparr>flexion_angle = None, extension_angle = None, muscle_voltage = None,
      muscle_relative = None, torque = None, max_flexion = None, max_extension = None,
      max_torque = None, imu = None, raw_imu = None, muscle_rest_voltage = None,
      muscle_peak_voltage = None\<rparr>"

definition numbered :: "nat \<Rightarrow> metrics" where
  "numbered n = blank_metrics\<lparr>muscle_relative := Some (real n)\<rparr>"

definition sample_stream :: "metrics list" where
  "sample_stream = map numbered [0..<101]"

definition shin_only :: "real \<Rightarrow> real \<Rightarrow> metrics" where
  "shin_only p q =
     blank_metrics\<lparr>imu := Some \<lparr>thigh = None, shin = Some \<lparr>pitch = Some p, roll = Some q\<rparr>\<rparr>\<rparr>"

definition tilted_state :: app_state where
  "tilted_state =
     initial_state\<lparr>smoothImu := \<lparr>thigh = \<lparr>pitch = 30, roll = 5\<rparr>, shin = \<lparr>pitch = 100, roll = 10\<rparr>\<rparr>\<rparr>"

definition ok_response :: http_response where
  "ok_response = \<lparr>response_ok = True, response_status = 200, response_json = None\<rparr>"

definition order_error_response :: http_response where
  "order_error_response = \<lparr>response_ok = False, response_status = 400, response_json = None\<rparr>"

definition reply_with :: "real option \<Rightarrow> real option \<Rightarrow> http_response" where
  "reply_with r p =
     \<lparr>response_ok = True, response_status = 200,
      response_json = Some \<lparr>rest_voltage = r, peak_voltage = p\<rparr>\<rparr>"

definition calibrated_state :: app_state where
  "calibrated_state =
     initial_state\<lparr>history := [numbered 40], muscleRange := \<lparr>rest = Some 1, peak = Some 3\<rparr>,
       calibrationStep := Done\<rparr>"

definition awaiting_rest_state :: app_state where
  "awaiting_rest_state = openUnifiedModal tilted_state"

definition awaiting_peak_state :: app_state where
  "awaiting_peak_state =
     handleModalConfirm (Resolved (reply_with (Some 1) None)) (Resolved ok_response) 0 awaiting_rest_state"

definition calibrated_tick :: metrics where
  "calibrated_tick =
     blank_metrics\<lparr>muscle_rest_voltage := Some (Some 1), muscle_peak_voltage := Some 3\<rparr>"

definition peaked_snapshot :: metrics where
  "peaked_snapshot =
     blank_metrics\<lparr>max_flexion := Some 90, max_extension := Some 170, max_torque := Some 7\<rparr>"

definition peaked_state :: app_state where
  "peaked_state = initial_state\<lparr>data := Some peaked_snapshot, history := [peaked_snapshot]\<rparr>"

definition peak_first_state :: app_state where
  "peak_first_state = initial_state\<lparr>calibrationStep := Peak\<rparr>"

definition connected_state :: app_state where
  "connected_state = ws_onopen (connectWebSocket initial_state)"

section \<open>Properties\<close>

subsection \<open>The bounded history\<close>

lemma history_ws_onmessage:
  "history (ws_onmessage m s) = slice_last maxHistoryLength (history s @ [m])"
  by (simp add: ws_onmessage_def pushHistory_def Let_def split: option.split)

lemma smoothImu_ws_onmessage:
  "smoothImu (ws_onmessage m s) = smoothUpdate (imuPayload_of m) (smoothImu s)"
  by (simp add: ws_onmessage_def Let_def split: option.split)

lemma slice_last_append:
  "slice_last n (slice_last n xs @ ys) = slice_last n (xs @ ys)"
proof (cases "length xs \<le> n")
  case True
  then show ?thesis by (simp add: slice_last_def)
next
  case False
  then have "length xs - n + n = length xs" by simp
  then show ?thesis using False by (simp add: slice_last_def add.commute)
qed

lemma receive_all_Nil: "receive_all [] s = s"
  by (simp add: receive_all_def)

lemma receive_all_Cons: "receive_all (m # msgs) s = receive_all msgs (ws_onmessage m s)"
  by (simp add: receive_all_def)

lemma receive_all_snoc: "receive_all (msgs @ [m]) s = ws_onmessage m (receive_all msgs s)"
  by (simp add: receive_all_def)

lemma history_receive_all:
  "history (receive_all (m # msgs) s) = slice_last maxHistoryLength (history s @ m # msgs)"
proof (induction msgs rule: rev_induct)
  case Nil
  show ?case by (simp add: receive_all_Cons receive_all_Nil history_ws_onmessage)
next
  case (snoc x msgs)
  have "history (receive_all (m # msgs @ [x]) s) =
        slice_last maxHistoryLength (history (receive_all (m # msgs) s) @ [x])"
    using receive_all_snoc [of "m # msgs" x s] by (simp add: history_ws_onmessage)
  also have "\<dots> = slice_last maxHistoryLength ((history s @ m # msgs) @ [x])"
    unfolding snoc.IH by (rule slice_last_append)
  finally show ?case by simp
qed

lemma history_after_many:
  assumes "maxHistoryLength \<le> length msgs"
  shows "history (receive_all msgs s) = drop (length msgs - maxHistoryLength) msgs"
proof (cases msgs)
  case Nil
  with assms show ?thesis by (simp add: maxHistoryLength_def)
next
  case (Cons m ms)
  with assms show ?thesis by (simp add: history_receive_all slice_last_def)
qed

text \<open>
  C2. For every sequence of incoming snapshots and every state they arrive in: once more
  than N = 100 snapshots have arrived, the history has length exactly N and holds the N
  snapshots received last, in their order of arrival (the older ones have been dropped
  from the front).
\<close>

theorem history_bound:
  "maxHistoryLength = 100 \<and>
   (maxHistoryLength < length msgs \<longrightarrow>
      length (history (receive_all msgs s)) = maxHistoryLength \<and>
      history (receive_all msgs s) = drop (length msgs - maxHistoryLength) msgs)"
  by (simp add: history_after_many) (simp add: maxHistoryLength_def)

text \<open>
  At 101 numbered snapshots arriving in the initial state, the history holds the
  snapshots 1 to 100: snapshot 0, the oldest, is the one dropped.
\<close>

theorem history_bound_witness:
  "maxHistoryLength < length sample_stream \<and>
   length (history (receive_all sample_stream initial_state)) = 100 \<and>
   history (receive_all sample_stream initial_state) = map numbered [1..<101]"
  using history_bound [of sample_stream initial_state]
  by (simp add: sample_stream_def drop_map maxHistoryLength_def)

subsection \<open>The relative peak\<close>

lemma foldl_larger_Num: "foldl larger (Num a) xs = Num (Max (insert a (set xs)))"
proof (induction xs arbitrary: a)
  case Nil
  show ?case by simp
next
  case (Cons x xs)
  have "Max (insert (max a x) (set xs)) = Max (insert a (insert x (set xs)))"
  proof (cases "set xs = {}")
    case True
    then show ?thesis by (simp add: max.commute)
  next
    case False
    then show ?thesis by (simp add: max.assoc max.commute max.left_commute)
  qed
  with Cons show ?case by simp
qed

lemma math_max_nonempty: "xs \<noteq> [] \<Longrightarrow> math_max xs = Num (Max (set xs))"
  by (cases xs) (simp_all add: math_max_def foldl_larger_Num)

lemma relativePeak_nonempty:
  assumes "hist \<noteq> []"
  shows "relativePeak hist = Num (Max (set (map (\<lambda>entry. nullish (muscle_relative entry) 0) hist)))"
proof -
  from assms have "map (\<lambda>entry. nullish (muscle_relative entry) 0) hist \<noteq> []" by simp
  then have "math_max (map (\<lambda>entry. nullish (muscle_relative entry) 0) hist) =
             Num (Max (set (map (\<lambda>entry. nullish (muscle_relative entry) 0) hist)))"
    by (rule math_max_nonempty)
  with assms show ?thesis by (simp add: relativePeak_def)
qed

text \<open>
  C10. The displayed relative peak is 0 for an empty history and otherwise the maximum,
  over the snapshots in the history, of \<^verbatim>\<open>muscle_relative\<close> with a missing field read
  as 0: \<^verbatim>\<open>-Infinity\<close> never comes out. It therefore reflects the retained window
  only: after more than 100 snapshots it is the maximum over the last 100 of them.
\<close>

theorem relativePeak_is_window_max:
  "relativePeak [] = Num 0 \<and>
   (hist \<noteq> [] \<longrightarrow>
      relativePeak hist = Num (Max (set (map (\<lambda>entry. nullish (muscle_relative entry) 0) hist)))) \<and>
   (maxHistoryLength < length msgs \<longrightarrow>
      relativePeak (history (receive_all msgs s)) =
        Num (Max (set (map (\<lambda>entry. nullish (muscle_relative entry) 0)
                         (drop (length msgs - maxHistoryLength) msgs)))))"
proof (intro conjI impI)
  show "relativePeak [] = Num 0" by (simp add: relativePeak_def)
next
  assume "hist \<noteq> []"
  then show "relativePeak hist = Num (Max (set (map (\<lambda>entry. nullish (muscle_relative entry) 0) hist)))"
    by (rule relativePeak_nonempty)
next
  assume long: "maxHistoryLength < length msgs"
  then have h: "history (receive_all msgs s) = drop (length msgs - maxHistoryLength) msgs"
    by (simp add: history_after_many)
  have "drop (length msgs - maxHistoryLength) msgs \<noteq> []"
    using long by (simp add: maxHistoryLength_def)
  then show "relativePeak (history (receive_all msgs s)) =
        Num (Max (set (map (\<lambda>entry. nullish (muscle_relative entry) 0)
                         (drop (length msgs - maxHistoryLength) msgs))))"
    unfolding h by (rule relativePeak_nonempty)
qed

text \<open>
  A missing field counts as 0 and the largest value wins; a peak of 90 followed by 100
  snapshots at 10 is forgotten.
\<close>

theorem relativePeak_is_window_max_witness:
  "[numbered 30, blank_metrics, numbered 20] \<noteq> [] \<and>
   relativePeak [numbered 30, blank_metrics, numbered 20] = Num 30 \<and>
   maxHistoryLength < length (numbered 90 # replicate 100 (numbered 10)) \<and>
   relativePeak (history (receive_all (numbered 90 # replicate 100 (numbered 10)) initial_state)) = Num 10"
  using relativePeak_is_window_max
    [of "[numbered 30, blank_metrics, numbered 20]" "numbered 90 # replicate 100 (numbered 10)"
        initial_state]
  by (simp add: numbered_def blank_metrics_def maxHistoryLength_def)

subsection \<open>Smoothing of the orientation\<close>

lemma at_segment_smoothUpdate:
  "at_segment (smoothUpdate p prev) seg = smoothSegment (at_segment prev seg) (at_segment p seg)"
  by (cases seg) (simp_all add: smoothUpdate_def)

lemma segment_ws_onmessage:
  "at_segment (smoothImu (ws_onmessage m s)) seg =
   smoothSegment (at_segment (smoothImu s) seg) (at_segment (imuPayload_of m) seg)"
  by (simp add: smoothImu_ws_onmessage at_segment_smoothUpdate)

lemma segment_carried_through:
  "\<forall>m \<in> set msgs. at_segment (imuPayload_of m) seg = None \<Longrightarrow>
   at_segment (smoothImu (receive_all msgs s)) seg = at_segment (smoothImu s) seg"
proof (induction msgs arbitrary: s)
  case Nil
  show ?case by (simp add: receive_all_Nil)
next
  case (Cons m msgs)
  then have "at_segment (smoothImu (ws_onmessage m s)) seg = at_segment (smoothImu s) seg"
    by (simp add: segment_ws_onmessage smoothSegment_def)
  with Cons show ?case by (simp add: receive_all_Cons)
qed

text \<open>
  C5. On every message whose payload has no reading for a segment, the estimate of that
  segment is carried forward unchanged; so it is across three such messages in a row, and
  across any number of them. The handler throws on no message that is a JSON object,
  whichever readings it lacks. The other segment is updated from its own reading, by the
  blend of its previous estimate and the reading.
\<close>

theorem missing_segment_carried_forward:
  "(at_segment (imuPayload_of m) seg = None \<longrightarrow>
      at_segment (smoothImu (ws_onmessage m s)) seg = at_segment (smoothImu s) seg) \<and>
   ws_onmessage_event (JsonObject m) s = (None, ws_onmessage m s) \<and>
   (at_segment (imuPayload_of m1) seg = None \<and> at_segment (imuPayload_of m2) seg = None \<and>
    at_segment (imuPayload_of m3) seg = None \<longrightarrow>
      at_segment (smoothImu (receive_all [m1, m2, m3] s)) seg = at_segment (smoothImu s) seg) \<and>
   ((\<forall>x \<in> set msgs. at_segment (imuPayload_of x) seg = None) \<longrightarrow>
      at_segment (smoothImu (receive_all msgs s)) seg = at_segment (smoothImu s) seg) \<and>
   (at_segment (imuPayload_of m) other = Some \<lparr>pitch = Some p, roll = Some q\<rparr> \<longrightarrow>
      at_segment (smoothImu (ws_onmessage m s)) other =
        \<lparr>pitch = smoothingAlpha * pitch (at_segment (smoothImu s) other) + (1 - smoothingAlpha) * p,
         roll = smoothingAlpha * roll (at_segment (smoothImu s) other) + (1 - smoothingAlpha) * q\<rparr>)"
proof (intro conjI impI)
  assume "at_segment (imuPayload_of m) seg = None"
  then show "at_segment (smoothImu (ws_onmessage m s)) seg = at_segment (smoothImu s) seg"
    by (simp add: segment_ws_onmessage smoothSegment_def)
next
  show "ws_onmessage_event (JsonObject m) s = (None, ws_onmessage m s)"
    by (simp add: ws_onmessage_event_def)
next
  assume "at_segment (imuPayload_of m1) seg = None \<and> at_segment (imuPayload_of m2) seg = None \<and>
    at_segment (imuPayload_of m3) seg = None"
  then have "\<forall>x \<in> set [m1, m2, m3]. at_segment (imuPayload_of x) seg = None" by simp
  then show "at_segment (smoothImu (receive_all [m1, m2, m3] s)) seg = at_segment (smoothImu s) seg"
    by (rule segment_carried_through)
next
  assume "\<forall>x \<in> set msgs. at_segment (imuPayload_of x) seg = None"
  then show "at_segment (smoothImu (receive_all msgs s)) seg = at_segment (smoothImu s) seg"
    by (rule segment_carried_through)
next
  assume "at_segment (imuPayload_of m) other = Some \<lparr>pitch = Some p, roll = Some q\<rparr>"
  then show "at_segment (smoothImu (ws_onmessage m s)) other =
        \<lparr>pitch = smoothingAlpha * pitch (at_segment (smoothImu s) other) + (1 - smoothingAlpha) * p,
         roll = smoothingAlpha * roll (at_segment (smoothImu s) other) + (1 - smoothingAlpha) * q\<rparr>"
    by (simp add: segment_ws_onmessage smoothSegment_def)
qed

text \<open>
  Messages without a thigh reading leave the thigh at (30, 5), while the shin moves from
  (100, 10) to (90, 12) on a reading of (50, 20).
\<close>

theorem missing_segment_carried_forward_witness:
  "at_segment (imuPayload_of (shin_only 50 20)) Thigh = None \<and>
   at_segment (smoothImu (ws_onmessage (shin_only 50 20) tilted_state)) Thigh = \<lparr>pitch = 30, roll = 5\<rparr> \<and>
   fst (ws_onmessage_event (JsonObject (shin_only 50 20)) tilted_state) = None \<and>
   at_segment (smoothImu (receive_all [shin_only 50 20, shin_only 50 20, blank_metrics] tilted_state)) Thigh
     = \<lparr>pitch = 30, roll = 5\<rparr> \<and>
   at_segment (smoothImu (receive_all (replicate 7 blank_metrics) tilted_state)) Thigh
     = \<lparr>pitch = 30, roll = 5\<rparr> \<and>
   at_segment (smoothImu (ws_onmessage (shin_only 50 20) tilted_state)) Shin = \<lparr>pitch = 90, roll = 12\<rparr>"
  using missing_segment_carried_forward
    [of "shin_only 50 20" Thigh tilted_state "shin_only 50 20" "shin_only 50 20" blank_metrics
        "replicate 7 blank_metrics" Shin 50 20]
  by (simp add: shin_only_def blank_metrics_def imuPayload_of_def tilted_state_def
      smoothingAlpha_def)

text \<open>
  C6. The constant \<open>\<alpha>\<close> is 0.8, which lies in [0.8, 0.98]; for every segment with an
  incoming reading, the new pitch is \<open>\<alpha>\<close> times the previous pitch plus \<open>1 - \<alpha>\<close> times the
  incoming pitch, and the new roll likewise from the rolls: each angle is blended on its
  own.
\<close>

theorem complementary_blend:
  "0.8 \<le> smoothingAlpha \<and> smoothingAlpha \<le> 0.98 \<and>
   (at_segment (imuPayload_of m) seg = Some inc \<longrightarrow>
      (pitch inc = Some p \<longrightarrow>
         pitch (at_segment (smoothImu (ws_onmessage m s)) seg) =
           smoothingAlpha * pitch (at_segment (smoothImu s) seg) + (1 - smoothingAlpha) * p) \<and>
      (roll inc = Some q \<longrightarrow>
         roll (at_segment (smoothImu (ws_onmessage m s)) seg) =
           smoothingAlpha * roll (at_segment (smoothImu s) seg) + (1 - smoothingAlpha) * q))"
  by (simp add: segment_ws_onmessage smoothSegment_def Let_def) (simp add: smoothingAlpha_def)

text \<open>The shin at (100, 10) and a reading of (50, 20) give (90, 12).\<close>

theorem complementary_blend_witness:
  "at_segment (imuPayload_of (shin_only 50 20)) Shin = Some \<lparr>pitch = Some 50, roll = Some 20\<rparr> \<and>
   pitch (at_segment (smoothImu (ws_onmessage (shin_only 50 20) tilted_state)) Shin) = 90 \<and>
   roll (at_segment (smoothImu (ws_onmessage (shin_only 50 20) tilted_state)) Shin) = 12"
  using complementary_blend
    [of "shin_only 50 20" Shin "\<lparr>pitch = Some 50, roll = Some 20\<rparr>" 50 tilted_state 20]
  by (simp add: shin_only_def blank_metrics_def imuPayload_of_def tilted_state_def
      smoothingAlpha_def)

subsection \<open>Resetting the session\<close>

text \<open>
  C1. The reset is to clear the history and the running maxima and to leave the
  calibration as it is. The client does not keep to that: at a calibrated client (rest
  1 V, peak 3 V, step done) whose reset request resolves, the rest voltage, the peak
  voltage and the calibration step all differ afterwards: both voltages are unset and
  the step is ready. The next snapshot of the stream brings the range back, while the
  step stays ready and the button reads "Initialize Sensors" although the calibration is
  in place.
\<close>

theorem reset_alters_calibration:
  "rest (muscleRange (resetSession (Resolved ok_response) calibrated_state))
      \<noteq> rest (muscleRange calibrated_state) \<and>
   peak (muscleRange (resetSession (Resolved ok_response) calibrated_state))
      \<noteq> peak (muscleRange calibrated_state) \<and>
   calibrationStep (resetSession (Resolved ok_response) calibrated_state)
      \<noteq> calibrationStep calibrated_state \<and>
   muscleRange calibrated_state = \<lparr>rest = Some 1, peak = Some 3\<rparr> \<and>
   calibrationStep calibrated_state = Done \<and>
   muscleRange (resetSession (Resolved ok_response) calibrated_state) = \<lparr>rest = None, peak = None\<rparr> \<and>
   calibrationStep (resetSession (Resolved ok_response) calibrated_state) = Ready \<and>
   muscleRange (ws_onmessage calibrated_tick (resetSession (Resolved ok_response) calibrated_state))
      = \<lparr>rest = Some 1, peak = Some 3\<rparr> \<and>
   calibrationStep (ws_onmessage calibrated_tick (resetSession (Resolved ok_response) calibrated_state))
      = Ready \<and>
   buttonLabel (ws_onmessage calibrated_tick (resetSession (Resolved ok_response) calibrated_state))
      = ''Initialize Sensors''"
  by (simp add: resetSession_def calibrated_state_def initial_state_def ws_onmessage_def
      calibrated_tick_def blank_metrics_def buttonLabel_def Let_def)

text \<open>
  The maxima the client shows are not zeroed by a reset, nor by two: a client whose last
  snapshot carries a maximal flexion of 90, a maximal extension of 170 and a maximal
  torque of 7 shows the same three numbers after resetting twice.
\<close>

theorem reset_keeps_snapshot_maxima:
  "maxFlexion (data (resetSession (Resolved ok_response) (resetSession (Resolved ok_response) peaked_state)))
      \<noteq> 0 \<and>
   maxTorque (data (resetSession (Resolved ok_response) (resetSession (Resolved ok_response) peaked_state)))
      \<noteq> 0 \<and>
   maxFlexion (data (resetSession (Resolved ok_response) (resetSession (Resolved ok_response) peaked_state)))
      = 90 \<and>
   maxExtension (data (resetSession (Resolved ok_response) (resetSession (Resolved ok_response) peaked_state)))
      = 170 \<and>
   maxTorque (data (resetSession (Resolved ok_response) (resetSession (Resolved ok_response) peaked_state)))
      = 7 \<and>
   maxTorque (data (resetSession (Resolved ok_response) peaked_state)) = 7"
  by (simp add: resetSession_def peaked_state_def peaked_snapshot_def blank_metrics_def
      initial_state_def maxFlexion_def maxExtension_def maxTorque_def)

text \<open>
  C9, as the client implements it. Resetting twice in a row gives exactly the state that
  resetting once gives. In that state the history is empty and the relative peak computed
  from it is 0; the snapshot received last is the one held before the reset, so the
  maxima shown from it (flexion, extension, torque) are not zeroed by the client but stay
  as they were, until the next snapshot arrives.
\<close>

theorem reset_idempotent:
  "resetSession reply (resetSession reply s) = resetSession reply s \<and>
   resetSession (Resolved r2) (resetSession (Resolved r1) s) = resetSession (Resolved r1) s \<and>
   history (resetSession (Resolved r2) (resetSession (Resolved r1) s)) = [] \<and>
   relativePeak (history (resetSession (Resolved r2) (resetSession (Resolved r1) s))) = Num 0 \<and>
   data (resetSession reply2 (resetSession reply1 s)) = data s \<and>
   maxFlexion (data (resetSession reply2 (resetSession reply1 s))) = maxFlexion (data s) \<and>
   maxExtension (data (resetSession reply2 (resetSession reply1 s))) = maxExtension (data s) \<and>
   maxTorque (data (resetSession reply2 (resetSession reply1 s))) = maxTorque (data s)"
proof -
  have d: "data (resetSession reply2 (resetSession reply1 s)) = data s"
    by (cases reply1; cases reply2) (simp_all add: resetSession_def)
  have i: "resetSession reply (resetSession reply s) = resetSession reply s"
    by (cases reply) (simp_all add: resetSession_def)
  have r: "resetSession (Resolved r2) (resetSession (Resolved r1) s) = resetSession (Resolved r1) s"
    by (simp add: resetSession_def)
  have h: "history (resetSession (Resolved r1) s) = []"
    by (simp add: resetSession_def)
  show ?thesis
    unfolding r d using i h by (simp add: relativePeak_def)
qed

subsection \<open>The calibration dialogue\<close>

lemma confirm_rest_ok:
  assumes "calibrationStep s = Rest" "response_ok resp" "response_json resp = Some result"
  shows "handleModalConfirm (Resolved resp) (Resolved resp') now s =
         s\<lparr>muscleRange :=
             \<lparr>rest = (case rest_voltage result of Some v \<Rightarrow> Some v | None \<Rightarrow> rest (muscleRange s)),
              peak = (case peak_voltage result of Some v \<Rightarrow> Some v | None \<Rightarrow> peak (muscleRange s))\<rparr>,
           smoothImu := createNeutralImu, calibrationStep := Peak, isCalibrating := False\<rparr>"
  using assms by (simp add: handleModalConfirm_def calibrateMuscleStep_def calibrateImu_def Let_def split: option.split)

lemma confirm_peak_ok:
  assumes "calibrationStep s = Peak" "response_ok resp" "response_json resp = Some result"
  shows "handleModalConfirm (Resolved resp) imuReply now s =
         (announceComplete now (s\<lparr>isCalibrating := True, muscleRange :=
             \<lparr>rest = (case rest_voltage result of Some v \<Rightarrow> Some v | None \<Rightarrow> rest (muscleRange s)),
              peak = (case peak_voltage result of Some v \<Rightarrow> Some v | None \<Rightarrow> peak (muscleRange s))\<rparr>\<rparr>))
           \<lparr>isCalibrating := False\<rparr>"
  using assms by (simp add: handleModalConfirm_def calibrateMuscleStep_def Let_def split: option.split)

lemma announceComplete_fields:
  "calibrationStep (announceComplete now s) = Done \<and>
   muscleRange (announceComplete now s) = muscleRange s \<and>
   modalState (announceComplete now s) = \<lparr>modal_type = None, modal_open = False\<rparr>"
  by (simp add: announceComplete_def closeModal_def setTimeout_def clearTimeout_def Let_def
      split: option.split)

text \<open>
  C3. From ready, and from done (where the button reads "Recalibrate"), starting the
  calibration enters the step rest. In the step rest, a confirmation whose two requests
  succeed stores the rest voltage the backend returns, resets the orientation to neutral
  (after the request that zeroes the IMUs) and advances to the step peak. In the step
  peak, a confirmation whose request succeeds stores the peak voltage returned and
  advances to done.
\<close>

theorem calibration_transitions:
  "(calibrationStep s = Ready \<or> calibrationStep s = Done \<longrightarrow>
      calibrationStep (openUnifiedModal s) = Rest) \<and>
   (buttonLabel s = ''Recalibrate'' \<longleftrightarrow> calibrationStep s = Done) \<and>
   (calibrationStep s = Rest \<and> response_ok resp \<and> response_json resp = Some result \<and>
    rest_voltage result = Some v \<longrightarrow>
      rest (muscleRange (handleModalConfirm (Resolved resp) (Resolved resp') now s)) = Some v \<and>
      smoothImu (handleModalConfirm (Resolved resp) (Resolved resp') now s) = createNeutralImu \<and>
      calibrationStep (handleModalConfirm (Resolved resp) (Resolved resp') now s) = Peak) \<and>
   (calibrationStep s = Peak \<and> response_ok resp \<and> response_json resp = Some result \<and>
    peak_voltage result = Some v \<longrightarrow>
      peak (muscleRange (handleModalConfirm (Resolved resp) imuReply now s)) = Some v \<and>
      calibrationStep (handleModalConfirm (Resolved resp) imuReply now s) = Done)"
proof (intro conjI impI)
  show "calibrationStep (openUnifiedModal s) = Rest"
    by (simp add: openUnifiedModal_def)
next
  show "buttonLabel s = ''Recalibrate'' \<longleftrightarrow> calibrationStep s = Done"
    by (simp add: buttonLabel_def)
next
  assume a: "calibrationStep s = Rest \<and> response_ok resp \<and> response_json resp = Some result \<and>
    rest_voltage result = Some v"
  then have e: "handleModalConfirm (Resolved resp) (Resolved resp') now s =
         s\<lparr>muscleRange :=
             \<lparr>rest = (case rest_voltage result of Some v \<Rightarrow> Some v | None \<Rightarrow> rest (muscleRange s)),
              peak = (case peak_voltage result of Some v \<Rightarrow> Some v | None \<Rightarrow> peak (muscleRange s))\<rparr>,
           smoothImu := createNeutralImu, calibrationStep := Peak, isCalibrating := False\<rparr>"
    by (simp add: confirm_rest_ok)
  show "rest (muscleRange (handleModalConfirm (Resolved resp) (Resolved resp') now s)) = Some v"
    unfolding e using a by simp
  show "smoothImu (handleModalConfirm (Resolved resp) (Resolved resp') now s) = createNeutralImu"
    unfolding e by simp
  show "calibrationStep (handleModalConfirm (Resolved resp) (Resolved resp') now s) = Peak"
    unfolding e by simp
next
  assume a: "calibrationStep s = Peak \<and> response_ok resp \<and> response_json resp = Some result \<and>
    peak_voltage result = Some v"
  then have e: "handleModalConfirm (Resolved resp) imuReply now s =
         (announceComplete now (s\<lparr>isCalibrating := True, muscleRange :=
             \<lparr>rest = (case rest_voltage result of Some v \<Rightarrow> Some v | None \<Rightarrow> rest (muscleRange s)),
              peak = (case peak_voltage result of Some v \<Rightarrow> Some v | None \<Rightarrow> peak (muscleRange s))\<rparr>\<rparr>))
           \<lparr>isCalibrating := False\<rparr>"
    by (simp add: confirm_peak_ok)
  show "peak (muscleRange (handleModalConfirm (Resolved resp) imuReply now s)) = Some v"
    unfolding e using a by (simp add: announceComplete_fields)
  show "calibrationStep (handleModalConfirm (Resolved resp) imuReply now s) = Done"
    unfolding e by (simp add: announceComplete_fields)
qed

text \<open>One run of the dialogue: ready, rest (1 V captured), peak (3 V captured), done.\<close>

theorem calibration_transitions_witness:
  "calibrationStep initial_state = Ready \<and>
   calibrationStep (openUnifiedModal initial_state) = Rest \<and>
   calibrationStep calibrated_state = Done \<and>
   buttonLabel calibrated_state = ''Recalibrate'' \<and>
   calibrationStep (openUnifiedModal calibrated_state) = Rest \<and>
   calibrationStep awaiting_rest_state = Rest \<and>
   rest (muscleRange awaiting_peak_state) = Some 1 \<and>
   smoothImu awaiting_peak_state = createNeutralImu \<and>
   calibrationStep awaiting_peak_state = Peak \<and>
   peak (muscleRange (handleModalConfirm (Resolved (reply_with (Some 1) (Some 3))) Rejected 5000
                        awaiting_peak_state)) = Some 3 \<and>
   calibrationStep (handleModalConfirm (Resolved (reply_with (Some 1) (Some 3))) Rejected 5000
                        awaiting_peak_state) = Done"
proof -
  have r: "calibrationStep awaiting_rest_state = Rest"
    by (simp add: awaiting_rest_state_def openUnifiedModal_def)
  have p: "calibrationStep awaiting_peak_state = Peak"
    using calibration_transitions
      [of awaiting_rest_state "reply_with (Some 1) None" "\<lparr>rest_voltage = Some 1, peak_voltage = None\<rparr>"
          1 ok_response 0]
      r
    by (simp add: awaiting_peak_state_def reply_with_def)
  show ?thesis
    using calibration_transitions [of initial_state]
      calibration_transitions [of calibrated_state]
      calibration_transitions
        [of awaiting_rest_state "reply_with (Some 1) None" "\<lparr>rest_voltage = Some 1, peak_voltage = None\<rparr>"
            1 ok_response 0]
      calibration_transitions
        [of awaiting_peak_state "reply_with (Some 1) (Some 3)" "\<lparr>rest_voltage = Some 1, peak_voltage = Some 3\<rparr>"
            3 _ 5000 Rejected]
      r p
    by (simp add: initial_state_def calibrated_state_def reply_with_def awaiting_peak_state_def)
qed

text \<open>
  C7. On the backend as the specification describes it, a capture of the maximum before
  the rest voltage has been captured fails with CalibrationOrderError and leaves the
  stored pair unchanged. On the client, a confirmation whose calibration request is
  answered with an error status, or is rejected, changes nothing but the flag
  \<^verbatim>\<open>isCalibrating\<close>: the displayed muscle range and the calibration step stay.
\<close>

theorem peak_before_rest_rejected:
  "(rest_voltage cal = None \<longrightarrow>
      calibrate_muscle ModeMax voltage cal = (Inl CalibrationOrderError, cal)) \<and>
   (\<not> response_ok resp \<longrightarrow>
      calibrateMuscleStep ModeMax (Resolved resp) s = Inl (HttpError (response_status resp)) \<and>
      handleModalConfirm (Resolved resp) imuReply now s = s\<lparr>isCalibrating := False\<rparr> \<and>
      muscleRange (handleModalConfirm (Resolved resp) imuReply now s) = muscleRange s \<and>
      calibrationStep (handleModalConfirm (Resolved resp) imuReply now s) = calibrationStep s) \<and>
   muscleRange (handleModalConfirm Rejected imuReply now s) = muscleRange s \<and>
   calibrationStep (handleModalConfirm Rejected imuReply now s) = calibrationStep s"
  by (simp add: calibrate_muscle_def handleModalConfirm_def Let_def calibrateMuscleStep_def)

text \<open>
  The backend refuses the capture on an empty calibration; the client, in the step peak,
  receives status 400 and keeps its state.
\<close>

theorem peak_before_rest_rejected_witness:
  "rest_voltage \<lparr>rest_voltage = None, peak_voltage = None\<rparr> = None \<and>
   calibrate_muscle ModeMax 2 \<lparr>rest_voltage = None, peak_voltage = None\<rparr>
     = (Inl CalibrationOrderError, \<lparr>rest_voltage = None, peak_voltage = None\<rparr>) \<and>
   response_ok order_error_response = False \<and>
   calibrateMuscleStep ModeMax (Resolved order_error_response) peak_first_state = Inl (HttpError 400) \<and>
   handleModalConfirm (Resolved order_error_response) Rejected 0 peak_first_state = peak_first_state \<and>
   muscleRange (handleModalConfirm (Resolved order_error_response) Rejected 0 peak_first_state)
     = \<lparr>rest = None, peak = None\<rparr> \<and>
   calibrationStep (handleModalConfirm (Resolved order_error_response) Rejected 0 peak_first_state) = Peak"
  using peak_before_rest_rejected
    [of "\<lparr>rest_voltage = None, peak_voltage = None\<rparr>" 2 order_error_response peak_first_state
        Rejected 0]
  by (simp add: order_error_response_def peak_first_state_def initial_state_def)

subsection \<open>Reconnecting\<close>

lemma socketsOpened_run_callbacks:
  "socketsOpened (foldl (\<lambda>st t. run_callback (action t) st) s ts) =
   socketsOpened s + length (filter (\<lambda>t. action t = ConnectWebSocket) ts)"
proof (induction ts arbitrary: s)
  case Nil
  show ?case by simp
next
  case (Cons t ts)
  show ?case
  proof (cases "action t")
    case ConnectWebSocket
    then show ?thesis by (simp add: Cons.IH connectWebSocket_def)
  next
    case ClearToast
    then show ?thesis by (simp add: Cons.IH)
  qed
qed

lemma socketsOpened_fire_due:
  "socketsOpened (fire_due t s) =
   socketsOpened s + length (filter (\<lambda>x. action x = ConnectWebSocket) (filter (\<lambda>x. due x \<le> t) (timers s)))"
  by (simp add: fire_due_def socketsOpened_run_callbacks)

lemma ws_onclose_fields:
  "timers (ws_onclose now s) =
     timers s @ [\<lparr>timer_id = nextTimerId s, due = now + 3000, action = ConnectWebSocket\<rparr>] \<and>
   socketsOpened (ws_onclose now s) = socketsOpened s \<and>
   isConnected (ws_onclose now s) = False"
  by (simp add: ws_onclose_def setTimeout_def)

lemma close_and_wait_opens: "Suc (socketsOpened s) \<le> socketsOpened (close_and_wait now s)"
  by (simp add: close_and_wait_def socketsOpened_fire_due ws_onclose_fields)

lemma closes_open_sockets:
  "socketsOpened s + length closes \<le> socketsOpened (foldl (\<lambda>st c. close_and_wait c st) s closes)"
proof (induction closes arbitrary: s)
  case Nil
  show ?case by simp
next
  case (Cons c closes)
  have "socketsOpened s + length (c # closes) = Suc (socketsOpened s) + length closes" by simp
  also have "\<dots> \<le> socketsOpened (close_and_wait c s) + length closes"
    using close_and_wait_opens [of s c] by simp
  also have "\<dots> \<le> socketsOpened (foldl (\<lambda>st c. close_and_wait c st) (close_and_wait c s) closes)"
    by (rule Cons.IH)
  finally show ?case by simp
qed

text \<open>
  C8. Whenever the socket closes, in whatever state, a call of \<^verbatim>\<open>connectWebSocket\<close>
  is queued for exactly 3000 ms later: before that time the close opens no socket, from
  that time on it has opened one more. No count of attempts and no condition on the state
  stands in the way, so this goes on indefinitely: after any number of closes, each
  followed by 3 seconds of waiting, at least that many further sockets have been opened.
\<close>

theorem reconnect_after_close:
  "timers (ws_onclose now s) =
     timers s @ [\<lparr>timer_id = nextTimerId s, due = now + 3000, action = ConnectWebSocket\<rparr>] \<and>
   isConnected (ws_onclose now s) = False \<and>
   (t < now + 3000 \<longrightarrow>
      socketsOpened (fire_due t (ws_onclose now s)) = socketsOpened (fire_due t s)) \<and>
   (now + 3000 \<le> t \<longrightarrow>
      socketsOpened (fire_due t (ws_onclose now s)) = Suc (socketsOpened (fire_due t s))) \<and>
   socketsOpened s + length closes \<le> socketsOpened (foldl (\<lambda>st c. close_and_wait c st) s closes)"
  by (simp add: socketsOpened_fire_due ws_onclose_fields closes_open_sockets)

text \<open>
  A connected client whose socket closes at 1 s has one socket at 3.999 s and two at 4 s;
  after three closes it has opened four.
\<close>

theorem reconnect_after_close_witness:
  "timers (ws_onclose 1000 connected_state) =
     [\<lparr>timer_id = 1, due = 4000, action = ConnectWebSocket\<rparr>] \<and>
   isConnected (ws_onclose 1000 connected_state) = False \<and>
   (3999::nat) < 1000 + 3000 \<and>
   socketsOpened (fire_due 3999 (ws_onclose 1000 connected_state)) = 1 \<and>
   socketsOpened (fire_due 4000 (ws_onclose 1000 connected_state)) = 2 \<and>
   4 \<le> socketsOpened (foldl (\<lambda>st c. close_and_wait c st) connected_state [1000, 9000, 20000])"
proof -
  have a: "socketsOpened (fire_due 3999 connected_state) = 1"
    by (simp add: connected_state_def ws_onopen_def connectWebSocket_def initial_state_def fire_due_def)
  have b: "socketsOpened (fire_due 4000 connected_state) = 1"
    by (simp add: connected_state_def ws_onopen_def connectWebSocket_def initial_state_def fire_due_def)
  have c: "socketsOpened connected_state = 1 \<and> timers connected_state = [] \<and> nextTimerId connected_state = 1"
    by (simp add: connected_state_def ws_onopen_def connectWebSocket_def initial_state_def)
  show ?thesis
    using reconnect_after_close [of 1000 connected_state 3999 "[1000, 9000, 20000]"]
      reconnect_after_close [of 1000 connected_state 4000 "[]"] a b c
    by simp
qed

subsection \<open>Relative activation\<close>

text \<open>
  C4. With a peak voltage above the rest voltage, the relative activation is
  100 (v - rest) / (peak - rest) clamped to [0, 100]; with an incomplete calibration it
  is 0; at rest 1 V, peak 3 V and 2 V sampled it is 50. The client shows the value it
  receives at a bar height clamped to the same range (once the timer of the bar has
  taken the value over), and takes 0 for the value when none has arrived.
\<close>

theorem relative_activation_formula:
  "(r < p \<longrightarrow>
      relative_activation \<lparr>rest_voltage = Some r, peak_voltage = Some p\<rparr> v
        = min 100 (max 0 (100 * (v - r) / (p - r))) \<and>
      0 \<le> relative_activation \<lparr>rest_voltage = Some r, peak_voltage = Some p\<rparr> v \<and>
      relative_activation \<lparr>rest_voltage = Some r, peak_voltage = Some p\<rparr> v \<le> 100) \<and>
   (rest_voltage cal = None \<or> peak_voltage cal = None \<longrightarrow> relative_activation cal v = 0) \<and>
   relative_activation \<lparr>rest_voltage = Some 1, peak_voltage = Some 3\<rparr> 2 = 50 \<and>
   barHeight (bar_timer (currentRelative (Some (m\<lparr>muscle_relative := Some (relative_activation cal v)\<rparr>)))
                threshold b)
     = relative_activation cal v \<and>
   currentRelative (Some (m\<lparr>muscle_relative := None\<rparr>)) = 0 \<and>
   currentRelative None = 0 \<and>
   barHeight (bar_timer x threshold b) = min 100 (max 0 x) \<and>
   0 \<le> barHeight b \<and> barHeight b \<le> 100"
  by (auto simp add: relative_activation_def barHeight_def bar_timer_def currentRelative_def
      split: option.splits)

text \<open>At rest 1 V and peak 3 V, 2.5 V is 75 percent; without a peak voltage it is 0.\<close>

theorem relative_activation_formula_witness:
  "(1::real) < 3 \<and>
   relative_activation \<lparr>rest_voltage = Some 1, peak_voltage = Some 3\<rparr> 2.5 = 75 \<and>
   peak_voltage \<lparr>rest_voltage = Some 1, peak_voltage = None\<rparr> = None \<and>
   relative_activation \<lparr>rest_voltage = Some 1, peak_voltage = None\<rparr> 2.5 = 0 \<and>
   relative_activation \<lparr>rest_voltage = Some 1, peak_voltage = Some 3\<rparr> 2 = 50 \<and>
   barHeight (bar_timer (currentRelative (Some (blank_metrics\<lparr>muscle_relative :=
      Some (relative_activation \<lparr>rest_voltage = Some 1, peak_voltage = None\<rparr> 2.5)\<rparr>))) 20 initial_bar)
     = 0 \<and>
   barHeight (bar_timer 130 20 initial_bar) = 100"
  using relative_activation_formula
    [where r = 1 and p = 3 and v = "2.5"
       and cal = "\<lparr>rest_voltage = Some 1, peak_voltage = None\<rparr>" and m = blank_metrics
       and threshold = 20 and b = initial_bar and x = 130]
  by (simp add: barHeight_def bar_timer_def currentRelative_def)

end
